theory Spec2Isabelle
  imports Main
begin

section \<open>The values handed to the component\<close>

text \<open>
  \<^verbatim>\<open>const {data, error} = useSWR<string[]>("/api/files", fetcher)\<close>

  The hook's type parameters are \<open>Data = string[]\<close> and \<open>Error = any\<close> (the default), so
  \<open>data\<close> is \<open>string[] | undefined\<close> and \<open>error\<close> is any JavaScript value, \<open>undefined\<close>
  when there is none. The component only tests \<open>error\<close> for truthiness, so the model of
  JavaScript values keeps what that test looks at: numbers are the integer-valued ones
  and \<open>NaN\<close> (every other number is non-zero, hence truthy like \<open>JNum 1\<close>), and an object,
  function or symbol is \<open>JObject\<close> with an identity.
\<close>

datatype js_value =
    JUndefined
  | JNull
  | JBool bool
  | JNum int
  | JNaN
  | JBigInt int
  | JStr string
  | JObject nat

text \<open>
  ToBoolean: \<open>undefined\<close>, \<open>null\<close>, \<open>false\<close>, \<open>0\<close>, \<open>NaN\<close>, \<open>0n\<close> and the empty string are
  falsy, everything else is truthy.
\<close>

fun truthy :: "js_value \<Rightarrow> bool" where
  "truthy JUndefined = False"
| "truthy JNull = False"
| "truthy (JBool b) = b"
| "truthy (JNum n) = (n \<noteq> 0)"
| "truthy JNaN = False"
| "truthy (JBigInt n) = (n \<noteq> 0)"
| "truthy (JStr s) = (s \<noteq> [])"
| "truthy (JObject a) = True"


section \<open>Rendered output\<close>

text \<open>
  A JSX expression evaluates to a tree of elements. An element has a component (or host
  tag), its props in the order written, and its children. \<open>Items\<close> is an array among the
  children, as \<open>data.map(...)\<close> produces.
\<close>

datatype component =
    Div
  | Fragment
  | Container
  | Tabs
  | Tabs_List
  | Tabs_Tab
  | Tabs_Panel
  | SingleFileEdit

datatype prop_value = PTrue | PStr string

datatype node =
    Text string
  | Element component "(string \<times> prop_value) list" "node list"
  | Items "node list"


section \<open>The component\<close>

text \<open>\<^verbatim>\<open><div>failed to load</div>\<close>\<close>

definition failed_to_load :: node where
  "failed_to_load = Element Div [] [Text ''failed to load'']"

text \<open>\<^verbatim>\<open><>loading</>\<close>\<close>

definition loading :: node where
  "loading = Element Fragment [] [Text ''loading'']"

text \<open>\<^verbatim>\<open>(entry) => (<Tabs.Tab value={entry}>{entry}</Tabs.Tab>)\<close>\<close>

definition tab_of :: "string \<Rightarrow> node" where
  "tab_of entry = Element Tabs_Tab [(''value'', PStr entry)] [Text entry]"

text \<open>
  \<^verbatim>\<open>(entry) => (<Tabs.Panel value={entry} pt="xs">
                 <SingleFileEdit name={entry} path={entry} />
               </Tabs.Panel>)\<close>
\<close>

definition panel_of :: "string \<Rightarrow> node" where
  "panel_of entry =
     Element Tabs_Panel [(''value'', PStr entry), (''pt'', PStr ''xs'')]
       [Element SingleFileEdit [(''name'', PStr entry), (''path'', PStr entry)] []]"

text \<open>The returned \<^verbatim>\<open><Container fluid>\<close> expression, given the two mapped arrays.\<close>

definition tab_view :: "node list \<Rightarrow> node list \<Rightarrow> node" where
  "tab_view ts ps =
     Element Container [(''fluid'', PTrue)]
       [Element Tabs [(''orientation'', PStr ''vertical'')]
          [Element Tabs_List [] [Items ts],
           Items ps]]"

text \<open>
  \<^verbatim>\<open>if (error) return <div>failed to load</div>;
  if (!data) return <>loading</>;
  return (<Container fluid> ... </Container>);\<close>

  An array is truthy also when it is empty, so \<open>!data\<close> holds for \<open>undefined\<close> only.
\<close>

definition RawEdit :: "string list option \<Rightarrow> js_value \<Rightarrow> node" where
  "RawEdit data error =
     (if truthy error then failed_to_load
      else case data of
        None \<Rightarrow> loading
      | Some d \<Rightarrow> tab_view (map tab_of d) (map panel_of d))"


section \<open>Reading a rendered tree\<close>

text \<open>All elements of one component in a tree, in document order.\<close>

fun elements_of :: "component \<Rightarrow> node \<Rightarrow> node list" where
  "elements_of c (Text s) = []"
| "elements_of c (Element c' ps ns) =
     (if c' = c then [Element c' ps ns] else []) @ concat (map (elements_of c) ns)"
| "elements_of c (Items ns) = concat (map (elements_of c) ns)"

definition tabs :: "node \<Rightarrow> node list" where
  "tabs n = elements_of Tabs_Tab n"

definition panels :: "node \<Rightarrow> node list" where
  "panels n = elements_of Tabs_Panel n"

fun get_prop :: "string \<Rightarrow> node \<Rightarrow> prop_value option" where
  "get_prop k (Element c ps ns) = map_of ps k"
| "get_prop k (Text s) = None"
| "get_prop k (Items ns) = None"

fun children :: "node \<Rightarrow> node list" where
  "children (Element c ps ns) = ns"
| "children (Text s) = []"
| "children (Items ns) = ns"


section \<open>The component over a store of arrays\<close>

text \<open>
  \<open>data\<close> is a reference to an array object, and each \<open>data.map(...)\<close> creates a new
  array object; whether rendering changes the fetched array is a question about
  these objects. Here arrays live in a store, at addresses. A slot of an array is \<open>None\<close>
  when the index is a hole. \<open>next_free\<close> is the address the next new array gets.
\<close>

type_synonym addr = nat

datatype jsarray = StringArray "string option list" | NodeArray "node option list"

record store =
  arrays :: "addr \<Rightarrow> jsarray option"
  next_free :: addr

text \<open>\<open>HasProperty(this, k)\<close> and \<open>Get(this, k)\<close> in one: \<open>None\<close> when the index is absent.\<close>

definition arr_get :: "'a option list \<Rightarrow> nat \<Rightarrow> 'a option" where
  "arr_get xs k = (if k < length xs then xs ! k else None)"

text \<open>\<open>CreateDataProperty(A, k, v)\<close>: writing past the end extends the array with holes.\<close>

definition arr_set :: "'a option list \<Rightarrow> nat \<Rightarrow> 'a \<Rightarrow> 'a option list" where
  "arr_set xs k v =
     (if k < length xs then xs[k := Some v]
      else xs @ replicate (k - length xs) None @ [Some v])"

text \<open>\<open>ArraySpeciesCreate(this, len)\<close> for an ordinary array: a new array of \<open>len\<close> holes.\<close>

definition ArrayCreate :: "nat \<Rightarrow> store \<Rightarrow> addr \<times> store" where
  "ArrayCreate len h =
     (next_free h,
      \<lparr>arrays = (arrays h)(next_free h \<mapsto> NodeArray (replicate len None)),
       next_free = Suc (next_free h)\<rparr>)"

text \<open>
  The loop of \<open>Array.prototype.map\<close>, from index \<open>k\<close> with \<open>n\<close> indices to go: an index
  present in \<open>this\<close> is read, given to the callback, and the result written to \<open>A\<close> at the
  same index; an absent index is skipped.
\<close>

fun map_loop :: "(string \<Rightarrow> node) \<Rightarrow> addr \<Rightarrow> addr \<Rightarrow> nat \<Rightarrow> nat \<Rightarrow> store \<Rightarrow> store" where
  "map_loop callbackfn this A k 0 h = h"
| "map_loop callbackfn this A k (Suc n) h =
     map_loop callbackfn this A (Suc k) n
       (case arrays h this of
          Some (StringArray xs) \<Rightarrow>
            (case arr_get xs k of
               Some kValue \<Rightarrow>
                 (case arrays h A of
                    Some (NodeArray ys) \<Rightarrow>
                      h\<lparr>arrays := (arrays h)(A \<mapsto> NodeArray (arr_set ys k (callbackfn kValue)))\<rparr>
                  | _ \<Rightarrow> h)
             | None \<Rightarrow> h)
        | _ \<Rightarrow> h)"

text \<open>
  \<open>this.map(callbackfn)\<close>: the length is read once, the result array is created, the loop
  runs, and the new array's address is returned. \<open>None\<close> is the TypeError of calling
  \<open>map\<close> on something that is not an array of strings, which the type of \<open>data\<close> excludes.
\<close>

definition Array_map :: "(string \<Rightarrow> node) \<Rightarrow> addr \<Rightarrow> store \<Rightarrow> (addr \<times> store) option" where
  "Array_map callbackfn this h =
     (case arrays h this of
        Some (StringArray xs) \<Rightarrow>
          (case ArrayCreate (length xs) h of
             (A, h') \<Rightarrow> Some (A, map_loop callbackfn this A 0 (length xs) h'))
      | _ \<Rightarrow> None)"

text \<open>The children an array of nodes contributes: its elements in order, holes left out.\<close>

definition items_at :: "store \<Rightarrow> addr \<Rightarrow> node list" where
  "items_at h A =
     (case arrays h A of
        Some (NodeArray ys) \<Rightarrow> concat (map (\<lambda>y. case y of None \<Rightarrow> [] | Some n \<Rightarrow> [n]) ys)
      | _ \<Rightarrow> [])"

text \<open>
  The component with \<open>data\<close> as a reference: the same three branches; the two \<open>map\<close> calls
  run in the order the JSX expression evaluates them, the tabs first.
\<close>

definition RawEdit_store :: "addr option \<Rightarrow> js_value \<Rightarrow> store \<Rightarrow> (node \<times> store) option" where
  "RawEdit_store data error h =
     (if truthy error then Some (failed_to_load, h)
      else case data of
        None \<Rightarrow> Some (loading, h)
      | Some d \<Rightarrow>
          (case Array_map tab_of d h of
             None \<Rightarrow> None
           | Some (T, h1) \<Rightarrow>
               (case Array_map panel_of d h1 of
                  None \<Rightarrow> None
                | Some (P, h2) \<Rightarrow> Some (tab_view (items_at h2 T) (items_at h2 P), h2))))"


text \<open>A store with one array, the fetched list of two names.\<close>

definition files_store :: store where
  "files_store =
     \<lparr>arrays = [0 \<mapsto> StringArray [Some ''a.txt'', Some ''b.txt'']], next_free = 1\<rparr>"


section \<open>The tabs and panels of the three outputs\<close>

lemma tabs_failed_to_load: "tabs failed_to_load = []"
  by (simp add: tabs_def failed_to_load_def)

lemma panels_failed_to_load: "panels failed_to_load = []"
  by (simp add: panels_def failed_to_load_def)

lemma tabs_loading: "tabs loading = []"
  by (simp add: tabs_def loading_def)

lemma panels_loading: "panels loading = []"
  by (simp add: panels_def loading_def)

lemma tabs_among_tabs: "concat (map (elements_of Tabs_Tab) (map tab_of d)) = map tab_of d"
  by (induction d) (simp_all add: tab_of_def)

lemma tabs_among_panels: "concat (map (elements_of Tabs_Tab) (map panel_of d)) = []"
  by (induction d) (simp_all add: panel_of_def)

lemma panels_among_tabs: "concat (map (elements_of Tabs_Panel) (map tab_of d)) = []"
  by (induction d) (simp_all add: tab_of_def)

lemma panels_among_panels:
  "concat (map (elements_of Tabs_Panel) (map panel_of d)) = map panel_of d"
  by (induction d) (simp_all add: panel_of_def)

lemma tabs_tab_view: "tabs (tab_view (map tab_of d) (map panel_of d)) = map tab_of d"
  by (simp add: tabs_def tab_view_def tabs_among_tabs tabs_among_panels del: map_map)

lemma panels_tab_view: "panels (tab_view (map tab_of d) (map panel_of d)) = map panel_of d"
  by (simp add: panels_def tab_view_def panels_among_tabs panels_among_panels del: map_map)

lemma RawEdit_loaded:
  "\<not> truthy error \<Longrightarrow> RawEdit (Some d) error = tab_view (map tab_of d) (map panel_of d)"
  by (simp add: RawEdit_def)

lemma RawEdit_failed: "truthy error \<Longrightarrow> RawEdit data error = failed_to_load"
  by (simp add: RawEdit_def)

lemma RawEdit_pending: "\<not> truthy error \<Longrightarrow> RawEdit None error = loading"
  by (simp add: RawEdit_def)

lemma tab_view_not_failed: "tab_view ts ps \<noteq> failed_to_load"
  by (simp add: tab_view_def failed_to_load_def)

lemma tab_view_not_loading: "tab_view ts ps \<noteq> loading"
  by (simp add: tab_view_def loading_def)

lemma failed_not_loading: "failed_to_load \<noteq> loading"
  by (simp add: failed_to_load_def loading_def)

lemma unique_match_iff_distinct:
  "(\<forall>i<length vs. \<exists>!j. j < length vs \<and> vs ! j = vs ! i) \<longleftrightarrow> distinct vs"
  unfolding distinct_conv_nth by metis


section \<open>The store: what \<open>map\<close> writes and what it leaves alone\<close>

lemma map_loop_other: "a \<noteq> A \<Longrightarrow> arrays (map_loop cb this A k n h) a = arrays h a"
  by (induction n arbitrary: k h) (auto split: option.splits jsarray.splits)

lemma map_loop_next_free: "next_free (map_loop cb this A k n h) = next_free h"
  by (induction n arbitrary: k h) (auto split: option.splits jsarray.splits)

lemma Array_map_frame:
  "Array_map cb this h = Some (A, h') \<Longrightarrow> a < next_free h \<Longrightarrow> arrays h' a = arrays h a"
  by (auto simp: Array_map_def ArrayCreate_def map_loop_other
           split: option.splits jsarray.splits)

lemma Array_map_next_free:
  "Array_map cb this h = Some (A, h') \<Longrightarrow> next_free h' = Suc (next_free h) \<and> A = next_free h"
  by (auto simp: Array_map_def ArrayCreate_def map_loop_next_free
           split: option.splits jsarray.splits)

lemma Array_map_returns:
  "arrays h this = Some (StringArray xs) \<Longrightarrow> \<exists>A h'. Array_map cb this h = Some (A, h')"
  by (simp add: Array_map_def ArrayCreate_def)

text \<open>
  On an array without holes the loop fills the result from index \<open>k\<close> on with the
  callback's values, in order.
\<close>

lemma map_loop_dense:
  "arrays h this = Some (StringArray (map Some d)) \<Longrightarrow> arrays h A = Some (NodeArray ys) \<Longrightarrow>
   this \<noteq> A \<Longrightarrow> length ys = length d \<Longrightarrow> k + n = length d \<Longrightarrow>
   arrays (map_loop cb this A k n h) A =
     Some (NodeArray (take k ys @ map (\<lambda>x. Some (cb x)) (drop k d)))"
proof (induction n arbitrary: k h ys)
  case 0
  then show ?case by simp
next
  case (Suc n)
  let ?v = "Some (cb (d ! k))"
  let ?h = "h\<lparr>arrays := (arrays h)(A \<mapsto> NodeArray (ys[k := ?v]))\<rparr>"
  from Suc.prems have k: "k < length d" by simp
  have step: "map_loop cb this A k (Suc n) h = map_loop cb this A (Suc k) n ?h"
    using Suc.prems k by (simp add: arr_get_def arr_set_def)
  have "arrays (map_loop cb this A (Suc k) n ?h) A =
        Some (NodeArray (take (Suc k) (ys[k := ?v]) @ map (\<lambda>x. Some (cb x)) (drop (Suc k) d)))"
    using Suc.prems k by (intro Suc.IH) simp_all
  moreover have "take (Suc k) (ys[k := ?v]) = take k ys @ [?v]"
    using Suc.prems k by (simp add: take_Suc_conv_app_nth)
  moreover have "drop k d = d ! k # drop (Suc k) d"
    using k by (simp add: Cons_nth_drop_Suc)
  ultimately show ?case using step by simp
qed

lemma items_at_dense:
  "arrays h A = Some (NodeArray (map (\<lambda>x. Some (cb x)) d)) \<Longrightarrow> items_at h A = map cb d"
  by (induction d arbitrary: h) (simp_all add: items_at_def comp_def)

lemma Array_map_dense:
  assumes "arrays h this = Some (StringArray (map Some d))" and "this < next_free h"
  shows "\<exists>h'. Array_map cb this h = Some (next_free h, h') \<and>
              arrays h' (next_free h) = Some (NodeArray (map (\<lambda>x. Some (cb x)) d))"
proof -
  let ?A = "next_free h"
  let ?h = "\<lparr>arrays = (arrays h)(?A \<mapsto> NodeArray (replicate (length d) None)),
            next_free = Suc ?A\<rparr>"
  have "arrays (map_loop cb this ?A 0 (length d) ?h) ?A =
        Some (NodeArray (take 0 (replicate (length d) None) @
                         map (\<lambda>x. Some (cb x)) (drop 0 d)))"
    using assms by (intro map_loop_dense) simp_all
  then show ?thesis using assms by (simp add: Array_map_def ArrayCreate_def)
qed

text \<open>
  The component over the store computes the tree of \<open>RawEdit\<close>, when \<open>data\<close> refers to an
  array holding the strings \<open>d\<close>.
\<close>

lemma RawEdit_store_refines:
  assumes "arrays h a = Some (StringArray (map Some d))" and "a < next_free h"
  shows "\<exists>h'. RawEdit_store (Some a) error h = Some (RawEdit (Some d) error, h')"
proof (cases "truthy error")
  case True
  then show ?thesis by (simp add: RawEdit_store_def RawEdit_def)
next
  case False
  obtain h1 where h1: "Array_map tab_of a h = Some (next_free h, h1)"
    "arrays h1 (next_free h) = Some (NodeArray (map (\<lambda>x. Some (tab_of x)) d))"
    using Array_map_dense [OF assms] by blast
  have nf1: "next_free h1 = Suc (next_free h)" using Array_map_next_free h1(1) by blast
  have a1: "arrays h1 a = Some (StringArray (map Some d))"
    using Array_map_frame [OF h1(1) assms(2)] assms(1) by simp
  have lt1: "a < next_free h1" using nf1 assms(2) by simp
  obtain h2 where h2: "Array_map panel_of a h1 = Some (next_free h1, h2)"
    "arrays h2 (next_free h1) = Some (NodeArray (map (\<lambda>x. Some (panel_of x)) d))"
    using Array_map_dense [OF a1 lt1] by blast
  have "arrays h2 (next_free h) = arrays h1 (next_free h)"
    using Array_map_frame [OF h2(1)] nf1 by simp
  then have T: "items_at h2 (next_free h) = map tab_of d"
    using h1(2) by (simp add: items_at_dense)
  have P: "items_at h2 (next_free h1) = map panel_of d"
    using h2(2) by (simp add: items_at_dense)
  show ?thesis using False h1(1) h2(1) T P by (simp add: RawEdit_store_def RawEdit_def)
qed

lemma single_file_edits_among_panels:
  "concat (map (elements_of SingleFileEdit) (map panel_of d)) =
   map (\<lambda>x. Element SingleFileEdit [(''name'', PStr x), (''path'', PStr x)] []) d"
  by (induction d) (simp_all add: panel_of_def)

lemma single_file_edits_among_tabs:
  "concat (map (elements_of SingleFileEdit) (map tab_of d)) = []"
  by (induction d) (simp_all add: tab_of_def)


section \<open>The claims\<close>

text \<open>
  Claim C1. When the fetch has succeeded with a list \<open>d\<close> of names (the error is not
  truthy, the data is \<open>d\<close>), the rendered tree has exactly \<open>length d\<close> tabs and
  \<open>length d\<close> panels, and the \<open>i\<close>-th tab has the \<open>i\<close>-th name as its value and as its
  label, the \<open>i\<close>-th panel has it as its value, in the order of \<open>d\<close>.
\<close>

theorem tabs_and_panels_per_name:
  assumes "\<not> truthy error"
  shows "length (tabs (RawEdit (Some d) error)) = length d \<and>
         length (panels (RawEdit (Some d) error)) = length d \<and>
         map (get_prop ''value'') (tabs (RawEdit (Some d) error)) = map (\<lambda>x. Some (PStr x)) d \<and>
         map children (tabs (RawEdit (Some d) error)) = map (\<lambda>x. [Text x]) d \<and>
         map (get_prop ''value'') (panels (RawEdit (Some d) error)) = map (\<lambda>x. Some (PStr x)) d"
  using assms
  by (simp add: RawEdit_loaded tabs_tab_view panels_tab_view tab_of_def panel_of_def)

theorem tabs_and_panels_per_name_witness:
  "\<not> truthy JUndefined \<and>
   length (tabs (RawEdit (Some [''a.txt'', ''b.txt'']) JUndefined)) = 2 \<and>
   length (panels (RawEdit (Some [''a.txt'', ''b.txt'']) JUndefined)) = 2 \<and>
   map (get_prop ''value'') (tabs (RawEdit (Some [''a.txt'', ''b.txt'']) JUndefined)) =
     [Some (PStr ''a.txt''), Some (PStr ''b.txt'')] \<and>
   map children (tabs (RawEdit (Some [''a.txt'', ''b.txt'']) JUndefined)) =
     [[Text ''a.txt''], [Text ''b.txt'']] \<and>
   map (get_prop ''value'') (panels (RawEdit (Some [''a.txt'', ''b.txt'']) JUndefined)) =
     [Some (PStr ''a.txt''), Some (PStr ''b.txt'')]"
  using tabs_and_panels_per_name [of JUndefined "[''a.txt'', ''b.txt'']"] by simp

text \<open>
  Claim C2, as amended. The claim speaks of every state in which an error is present;
  the component tests \<open>if (error)\<close>, so it holds for the truthy error values: then the
  output is the static error message, the \<open>div\<close> with the text \<open>failed to load\<close>, with
  no tab and no panel, whatever the data.
\<close>

theorem truthy_error_shows_message:
  assumes "truthy error"
  shows "RawEdit data error = Element Div [] [Text ''failed to load''] \<and>
         tabs (RawEdit data error) = [] \<and> panels (RawEdit data error) = []"
proof -
  have r: "RawEdit data error = failed_to_load"
    using assms by (rule RawEdit_failed)
  have "failed_to_load = Element Div [] [Text ''failed to load'']"
    by (simp add: failed_to_load_def)
  then show ?thesis
    using r by (simp add: tabs_failed_to_load panels_failed_to_load)
qed

theorem truthy_error_shows_message_witness:
  "truthy (JObject 0) \<and>
   RawEdit (Some [''a.txt'']) (JObject 0) = Element Div [] [Text ''failed to load''] \<and>
   tabs (RawEdit (Some [''a.txt'']) (JObject 0)) = [] \<and>
   panels (RawEdit (Some [''a.txt'']) (JObject 0)) = []"
proof -
  have h: "truthy (JObject 0)" by simp
  from h truthy_error_shows_message [OF h, of "Some [''a.txt'']"] show ?thesis by blast
qed

text \<open>
  Claim C2 as stated fails for an error value that is present but falsy: with the empty
  string as the error (not \<open>undefined\<close>, so an error is there) and a fetched list, the
  output is not the error message and it has a tab and a panel.
\<close>

theorem empty_string_error_not_shown:
  "JStr '''' \<noteq> JUndefined \<and>
   RawEdit (Some [''a.txt'']) (JStr '''') \<noteq> Element Div [] [Text ''failed to load''] \<and>
   tabs (RawEdit (Some [''a.txt'']) (JStr '''')) =
     [Element Tabs_Tab [(''value'', PStr ''a.txt'')] [Text ''a.txt'']] \<and>
   panels (RawEdit (Some [''a.txt'']) (JStr '''')) =
     [Element Tabs_Panel [(''value'', PStr ''a.txt''), (''pt'', PStr ''xs'')]
        [Element SingleFileEdit [(''name'', PStr ''a.txt''), (''path'', PStr ''a.txt'')] []]]"
proof -
  have f: "\<not> truthy (JStr '''')" by simp
  have r: "RawEdit (Some [''a.txt'']) (JStr '''') =
           tab_view (map tab_of [''a.txt'']) (map panel_of [''a.txt''])"
    by (rule RawEdit_loaded [OF f])
  have t: "tabs (RawEdit (Some [''a.txt'']) (JStr '''')) = map tab_of [''a.txt'']"
    by (simp only: r tabs_tab_view)
  have p: "panels (RawEdit (Some [''a.txt'']) (JStr '''')) = map panel_of [''a.txt'']"
    by (simp only: r panels_tab_view)
  have n: "RawEdit (Some [''a.txt'']) (JStr '''') \<noteq> Element Div [] [Text ''failed to load'']"
    by (simp add: r tab_view_def)
  show ?thesis using n by (simp add: t p tab_of_def panel_of_def)
qed

text \<open>
  Claim C3. When the fetch is pending (no data, and no error: \<open>undefined\<close>, or any other
  value the test \<open>if (error)\<close> lets through), the output is the static loading message,
  the fragment with the text \<open>loading\<close>, with no tab and no panel.
\<close>

theorem pending_shows_loading:
  assumes "\<not> truthy error"
  shows "RawEdit None error = Element Fragment [] [Text ''loading''] \<and>
         tabs (RawEdit None error) = [] \<and> panels (RawEdit None error) = []"
proof -
  have r: "RawEdit None error = loading"
    using assms by (rule RawEdit_pending)
  have "loading = Element Fragment [] [Text ''loading'']"
    by (simp add: loading_def)
  then show ?thesis
    using r by (simp add: tabs_loading panels_loading)
qed

theorem pending_shows_loading_witness:
  "\<not> truthy JUndefined \<and>
   RawEdit None JUndefined = Element Fragment [] [Text ''loading''] \<and>
   tabs (RawEdit None JUndefined) = [] \<and> panels (RawEdit None JUndefined) = []"
proof -
  have h: "\<not> truthy JUndefined" by simp
  from h pending_shows_loading [OF h] show ?thesis by blast
qed

text \<open>
  Claim C4. For every data and every error value the output is one of three trees: the
  \<open>div\<close> with the text \<open>failed to load\<close>, the fragment with the text \<open>loading\<close>, or the
  container holding the tabs, with one tab and one panel made from each name of the
  fetched list, in order. The three are different trees, so the output is exactly one of
  them, and which one is fixed by the truthiness of the error and then by the data.
\<close>

theorem three_output_shapes:
  "(RawEdit data error = Element Div [] [Text ''failed to load''] \<or>
    RawEdit data error = Element Fragment [] [Text ''loading''] \<or>
    (\<exists>d. data = Some d \<and>
         RawEdit data error =
           Element Container [(''fluid'', PTrue)]
             [Element Tabs [(''orientation'', PStr ''vertical'')]
                [Element Tabs_List []
                   [Items (map (\<lambda>entry. Element Tabs_Tab [(''value'', PStr entry)] [Text entry]) d)],
                 Items (map (\<lambda>entry.
                          Element Tabs_Panel [(''value'', PStr entry), (''pt'', PStr ''xs'')]
                            [Element SingleFileEdit
                               [(''name'', PStr entry), (''path'', PStr entry)] []]) d)]])) \<and>
   RawEdit data error =
     (if truthy error then Element Div [] [Text ''failed to load'']
      else case data of
        None \<Rightarrow> Element Fragment [] [Text ''loading'']
      | Some d \<Rightarrow>
          Element Container [(''fluid'', PTrue)]
            [Element Tabs [(''orientation'', PStr ''vertical'')]
               [Element Tabs_List []
                  [Items (map (\<lambda>entry. Element Tabs_Tab [(''value'', PStr entry)] [Text entry]) d)],
                Items (map (\<lambda>entry.
                         Element Tabs_Panel [(''value'', PStr entry), (''pt'', PStr ''xs'')]
                           [Element SingleFileEdit
                              [(''name'', PStr entry), (''path'', PStr entry)] []]) d)]]) \<and>
   Element Div [] [Text ''failed to load''] \<noteq> Element Fragment [] [Text ''loading''] \<and>
   (\<forall>c. Element Container [(''fluid'', PTrue)] c \<noteq> Element Div [] [Text ''failed to load''] \<and>
        Element Container [(''fluid'', PTrue)] c \<noteq> Element Fragment [] [Text ''loading''])"
proof -
  have tab: "tab_of = (\<lambda>entry. Element Tabs_Tab [(''value'', PStr entry)] [Text entry])"
    by (rule ext) (simp add: tab_of_def)
  have panel: "panel_of = (\<lambda>entry.
      Element Tabs_Panel [(''value'', PStr entry), (''pt'', PStr ''xs'')]
        [Element SingleFileEdit [(''name'', PStr entry), (''path'', PStr entry)] []])"
    by (rule ext) (simp add: panel_of_def)
  show ?thesis
    by (cases data)
       (simp_all add: RawEdit_def failed_to_load_def loading_def tab_view_def tab panel)
qed

text \<open>
  Claim C5. For every entry of a fetched list, the panel of that entry has one child, the
  single-file-edit widget with the entry as its \<open>name\<close> and the same entry as its \<open>path\<close>;
  these are all the widgets of the tree, one per entry, in order.
\<close>

theorem panel_delegates_to_single_file_edit:
  assumes "\<not> truthy error"
  shows "map children (panels (RawEdit (Some d) error)) =
           map (\<lambda>x. [Element SingleFileEdit [(''name'', PStr x), (''path'', PStr x)] []]) d \<and>
         elements_of SingleFileEdit (RawEdit (Some d) error) =
           map (\<lambda>x. Element SingleFileEdit [(''name'', PStr x), (''path'', PStr x)] []) d"
  using assms
  by (simp add: RawEdit_loaded panels_tab_view panel_of_def)
     (simp add: tab_view_def single_file_edits_among_panels single_file_edits_among_tabs
           del: map_map)

theorem panel_delegates_to_single_file_edit_witness:
  "\<not> truthy JNull \<and>
   map children (panels (RawEdit (Some [''a.txt'', ''b.txt'']) JNull)) =
     [[Element SingleFileEdit [(''name'', PStr ''a.txt''), (''path'', PStr ''a.txt'')] []],
      [Element SingleFileEdit [(''name'', PStr ''b.txt''), (''path'', PStr ''b.txt'')] []]] \<and>
   elements_of SingleFileEdit (RawEdit (Some [''a.txt'', ''b.txt'']) JNull) =
     [Element SingleFileEdit [(''name'', PStr ''a.txt''), (''path'', PStr ''a.txt'')] [],
      Element SingleFileEdit [(''name'', PStr ''b.txt''), (''path'', PStr ''b.txt'')] []]"
  using panel_delegates_to_single_file_edit [of JNull "[''a.txt'', ''b.txt'']"] by simp

text \<open>
  Claim C6. Rendering leaves the fetched array as it was: when \<open>data\<close> refers to an array
  of the store, the render returns, and the array at that address afterwards is the
  array before, element for element. The two \<open>map\<close> calls write to arrays they create.
\<close>

theorem rendering_leaves_data_unchanged:
  assumes "arrays h a = Some (StringArray xs)" and "a < next_free h"
  shows "\<exists>n h'. RawEdit_store (Some a) error h = Some (n, h') \<and>
                arrays h' a = Some (StringArray xs)"
proof (cases "truthy error")
  case True
  then show ?thesis using assms by (simp add: RawEdit_store_def)
next
  case False
  obtain T h1 where h1: "Array_map tab_of a h = Some (T, h1)"
    using Array_map_returns [OF assms(1)] by blast
  have a1: "arrays h1 a = Some (StringArray xs)"
    using Array_map_frame [OF h1 assms(2)] assms(1) by simp
  have lt1: "a < next_free h1" using Array_map_next_free [OF h1] assms(2) by simp
  obtain P h2 where h2: "Array_map panel_of a h1 = Some (P, h2)"
    using Array_map_returns [OF a1] by blast
  have "arrays h2 a = Some (StringArray xs)"
    using Array_map_frame [OF h2 lt1] a1 by simp
  then show ?thesis using False h1 h2 by (simp add: RawEdit_store_def)
qed

theorem rendering_leaves_data_unchanged_witness:
  "arrays files_store 0 = Some (StringArray [Some ''a.txt'', Some ''b.txt'']) \<and>
   0 < next_free files_store \<and>
   (\<exists>n h'. RawEdit_store (Some 0) JUndefined files_store = Some (n, h') \<and>
            arrays h' 0 = Some (StringArray [Some ''a.txt'', Some ''b.txt'']))"
proof -
  have a: "arrays files_store 0 = Some (StringArray [Some ''a.txt'', Some ''b.txt''])"
    by (simp add: files_store_def)
  have b: "0 < next_free files_store" by (simp add: files_store_def)
  from a b rendering_leaves_data_unchanged [OF a b, of JUndefined] show ?thesis by blast
qed

text \<open>
  Claim C7, as amended. For every fetched list the values of the tabs, in order, are the
  values of the panels, in order, and both are the fetched list. Each tab has exactly
  one panel with its value exactly when the names of the list are pairwise distinct.
\<close>

theorem tab_and_panel_values_are_data:
  assumes "\<not> truthy error"
  shows "map (get_prop ''value'') (tabs (RawEdit (Some d) error)) =
           map (get_prop ''value'') (panels (RawEdit (Some d) error)) \<and>
         map (get_prop ''value'') (tabs (RawEdit (Some d) error)) = map (\<lambda>x. Some (PStr x)) d \<and>
         ((\<forall>i<length (tabs (RawEdit (Some d) error)).
             \<exists>!j. j < length (panels (RawEdit (Some d) error)) \<and>
                  get_prop ''value'' (panels (RawEdit (Some d) error) ! j) =
                  get_prop ''value'' (tabs (RawEdit (Some d) error) ! i))
          \<longleftrightarrow> distinct d)"
proof -
  let ?r = "RawEdit (Some d) error"
  let ?vs = "map (\<lambda>x. Some (PStr x)) d"
  have t: "tabs ?r = map tab_of d" and p: "panels ?r = map panel_of d"
    using assms by (simp_all add: RawEdit_loaded tabs_tab_view panels_tab_view)
  have tv: "map (get_prop ''value'') (tabs ?r) = ?vs"
    by (simp add: t tab_of_def)
  have pv: "map (get_prop ''value'') (panels ?r) = ?vs"
    by (simp add: p panel_of_def)
  have ti: "get_prop ''value'' (tabs ?r ! i) = ?vs ! i" if "i < length d" for i
    using that by (simp add: t tab_of_def)
  have pj: "get_prop ''value'' (panels ?r ! j) = ?vs ! j" if "j < length d" for j
    using that by (simp add: p panel_of_def)
  have "(\<forall>i<length (tabs ?r). \<exists>!j. j < length (panels ?r) \<and>
            get_prop ''value'' (panels ?r ! j) = get_prop ''value'' (tabs ?r ! i))
        \<longleftrightarrow> (\<forall>i<length ?vs. \<exists>!j. j < length ?vs \<and> ?vs ! j = ?vs ! i)"
    using ti pj by (simp add: t p cong: conj_cong)
  also have "\<dots> \<longleftrightarrow> distinct ?vs" by (rule unique_match_iff_distinct)
  also have "\<dots> \<longleftrightarrow> distinct d" by (simp add: distinct_map inj_on_def)
  finally show ?thesis using tv pv by simp
qed

theorem tab_and_panel_values_are_data_witness:
  "\<not> truthy JUndefined \<and> distinct [''a.txt'', ''b.txt''] \<and>
   map (get_prop ''value'') (tabs (RawEdit (Some [''a.txt'', ''b.txt'']) JUndefined)) =
     map (get_prop ''value'') (panels (RawEdit (Some [''a.txt'', ''b.txt'']) JUndefined)) \<and>
   map (get_prop ''value'') (tabs (RawEdit (Some [''a.txt'', ''b.txt'']) JUndefined)) =
     map (\<lambda>x. Some (PStr x)) [''a.txt'', ''b.txt''] \<and>
   (\<exists>!j. j < length (panels (RawEdit (Some [''a.txt'', ''b.txt'']) JUndefined)) \<and>
         get_prop ''value'' (panels (RawEdit (Some [''a.txt'', ''b.txt'']) JUndefined) ! j) =
         get_prop ''value'' (tabs (RawEdit (Some [''a.txt'', ''b.txt'']) JUndefined) ! 0)) \<and>
   (\<exists>!j. j < length (panels (RawEdit (Some [''a.txt'', ''b.txt'']) JUndefined)) \<and>
         get_prop ''value'' (panels (RawEdit (Some [''a.txt'', ''b.txt'']) JUndefined) ! j) =
         get_prop ''value'' (tabs (RawEdit (Some [''a.txt'', ''b.txt'']) JUndefined) ! 1))"
proof -
  have h: "\<not> truthy JUndefined" by simp
  have dd: "distinct [''a.txt'', ''b.txt'']" by simp
  have "tabs (RawEdit (Some [''a.txt'', ''b.txt'']) JUndefined) = map tab_of [''a.txt'', ''b.txt'']"
    by (simp only: RawEdit_loaded [OF h] tabs_tab_view)
  then have n: "0 < length (tabs (RawEdit (Some [''a.txt'', ''b.txt'']) JUndefined))"
    "1 < length (tabs (RawEdit (Some [''a.txt'', ''b.txt'']) JUndefined))"
    by simp_all
  from h dd n tab_and_panel_values_are_data [OF h, of "[''a.txt'', ''b.txt'']"]
  show ?thesis by blast
qed

text \<open>
  Claim C7 as stated says that each tab corresponds to exactly one panel by value
  equality, for every fetched list. With a name that occurs twice, the first tab's value
  is the value of two panels.
\<close>

theorem duplicate_name_matches_two_panels:
  "length (panels (RawEdit (Some [''a.txt'', ''a.txt'']) JUndefined)) = 2 \<and>
   get_prop ''value'' (panels (RawEdit (Some [''a.txt'', ''a.txt'']) JUndefined) ! 0) =
     get_prop ''value'' (tabs (RawEdit (Some [''a.txt'', ''a.txt'']) JUndefined) ! 0) \<and>
   get_prop ''value'' (panels (RawEdit (Some [''a.txt'', ''a.txt'']) JUndefined) ! 1) =
     get_prop ''value'' (tabs (RawEdit (Some [''a.txt'', ''a.txt'']) JUndefined) ! 0)"
proof -
  have h: "\<not> truthy JUndefined" by simp
  have t: "tabs (RawEdit (Some [''a.txt'', ''a.txt'']) JUndefined) = map tab_of [''a.txt'', ''a.txt'']"
    by (simp only: RawEdit_loaded [OF h] tabs_tab_view)
  have p: "panels (RawEdit (Some [''a.txt'', ''a.txt'']) JUndefined) = map panel_of [''a.txt'', ''a.txt'']"
    by (simp only: RawEdit_loaded [OF h] panels_tab_view)
  show ?thesis by (simp add: t p tab_of_def panel_of_def)
qed

text \<open>
  Claim C8, as amended. For any two truthy error values, and whatever the data of the
  two runs, the output is the same static error message.
\<close>

theorem error_message_same_for_truthy_errors:
  assumes "truthy e1" and "truthy e2"
  shows "RawEdit d1 e1 = RawEdit d2 e2 \<and> RawEdit d1 e1 = failed_to_load"
  using assms by (simp add: RawEdit_failed)

theorem error_message_same_for_truthy_errors_witness:
  "truthy (JObject 0) \<and> truthy (JStr ''timeout'') \<and>
   RawEdit None (JObject 0) = RawEdit (Some [''a.txt'']) (JStr ''timeout'') \<and>
   RawEdit None (JObject 0) = failed_to_load"
proof -
  have a: "truthy (JObject 0)" and b: "truthy (JStr ''timeout'')" by simp_all
  from a b error_message_same_for_truthy_errors [OF a b, of None "Some [''a.txt'']"]
  show ?thesis by blast
qed

text \<open>
  Claim C8 as stated covers any two error values. The output depends on whether the
  error value is truthy: of two different strings given as the error, \<open>timeout\<close> gives
  the error message and the empty string gives the loading message.
\<close>

theorem output_depends_on_error_truthiness:
  "JStr ''timeout'' \<noteq> JStr [] \<and> JStr ''timeout'' \<noteq> JUndefined \<and> JStr [] \<noteq> JUndefined \<and>
   RawEdit None (JStr ''timeout'') = failed_to_load \<and>
   RawEdit None (JStr []) = loading \<and>
   RawEdit None (JStr ''timeout'') \<noteq> RawEdit None (JStr [])"
  by (simp add: RawEdit_def failed_not_loading)

text \<open>
  Claim C9. A fetch that succeeds with the empty list renders the tab view, a container
  with an empty tab list and no panels, and not the loading message.
\<close>

theorem empty_list_is_loaded:
  assumes "\<not> truthy error"
  shows "RawEdit (Some []) error =
           Element Container [(''fluid'', PTrue)]
             [Element Tabs [(''orientation'', PStr ''vertical'')]
                [Element Tabs_List [] [Items []], Items []]] \<and>
         RawEdit (Some []) error \<noteq> loading \<and>
         tabs (RawEdit (Some []) error) = [] \<and>
         panels (RawEdit (Some []) error) = []"
proof -
  have r: "RawEdit (Some []) error = tab_view [] []"
    using RawEdit_loaded [OF assms, of "[]"] by simp
  have "tabs (tab_view [] []) = []" and "panels (tab_view [] []) = []"
    using tabs_tab_view [of "[]"] panels_tab_view [of "[]"] by simp_all
  then show ?thesis using r tab_view_not_loading [of "[]" "[]"] by (simp add: tab_view_def)
qed

theorem empty_list_is_loaded_witness:
  "\<not> truthy JUndefined \<and>
   RawEdit (Some []) JUndefined =
     Element Container [(''fluid'', PTrue)]
       [Element Tabs [(''orientation'', PStr ''vertical'')]
          [Element Tabs_List [] [Items []], Items []]] \<and>
   RawEdit (Some []) JUndefined \<noteq> loading \<and>
   tabs (RawEdit (Some []) JUndefined) = [] \<and>
   panels (RawEdit (Some []) JUndefined) = []"
proof -
  have h: "\<not> truthy JUndefined" by simp
  from h empty_list_is_loaded [OF h] show ?thesis by blast
qed

text \<open>
  Claim C10, as amended. When the state holds fetched data and a truthy error value, the
  output is the error message and not the tab view of the data: the error test comes
  first.
\<close>

theorem truthy_error_wins_over_data:
  assumes "truthy error"
  shows "RawEdit (Some d) error = failed_to_load \<and>
         RawEdit (Some d) error \<noteq> tab_view (map tab_of d) (map panel_of d)"
  using assms tab_view_not_failed [of "map tab_of d" "map panel_of d"]
  by (simp add: RawEdit_failed)

theorem truthy_error_wins_over_data_witness:
  "truthy (JStr ''Not Found'') \<and>
   RawEdit (Some [''a.txt'']) (JStr ''Not Found'') = failed_to_load \<and>
   RawEdit (Some [''a.txt'']) (JStr ''Not Found'') \<noteq>
     tab_view (map tab_of [''a.txt'']) (map panel_of [''a.txt''])"
proof -
  have h: "truthy (JStr ''Not Found'')" by simp
  from h truthy_error_wins_over_data [OF h, of "[''a.txt'']"] show ?thesis by blast
qed

text \<open>
  Claim C10 as stated fails for an error value that is present but falsy: with the
  number \<open>0\<close> as the error and a fetched list, the output is the tab view of the list.
\<close>

theorem zero_error_loses_to_data:
  "JNum 0 \<noteq> JUndefined \<and>
   RawEdit (Some [''a.txt'']) (JNum 0) =
     tab_view (map tab_of [''a.txt'']) (map panel_of [''a.txt'']) \<and>
   RawEdit (Some [''a.txt'']) (JNum 0) \<noteq> failed_to_load"
  by (simp add: RawEdit_def tab_view_not_failed)

end
